theory Spec2Isabelle
  imports Main "HOL-Library.Word"
begin

section \<open>JavaScript values and the JSON codec\<close>

text \<open>
  The payloads of \<^verbatim>\<open>messageBroker.ts\<close> are untyped JavaScript values. The model keeps
  the values on which the code's behaviour depends: \<open>undefined\<close>, \<open>null\<close>, booleans,
  numbers, strings, arrays and plain objects. A number is an integer from \<open>-2^53\<close> to
  \<open>2^53 - 1\<close> (a signed 54-bit word: each of them is a double, and \<open>Number::toString\<close>
  prints its decimal digits; \<open>-0\<close> is identified with \<open>0\<close>) or \<open>NaN\<close>. The other
  numbers (non-integers, larger magnitudes, the infinities) are not values of the model; the
  code tests no number and passes every payload through as it is. A string is its sequence
  of UTF-8 bytes. An object is the list of its own enumerable properties in enumeration
  order; the first binding of a key is its value.
\<close>

datatype jsval =
    JUndefined
  | JNull
  | JBool bool
  | JNum "54 word"
  | JNaN
  | JStr string
  | JArr "jsval list"
  | JObj "(string \<times> jsval) list"

text \<open>What a rejected promise or a \<open>throw\<close> carries: \<open>new Error(message)\<close>, the
  \<open>SyntaxError\<close> of \<open>JSON.parse\<close>, the \<open>TypeError\<close> of a property access on
  \<open>undefined\<close>/\<open>null\<close> or of \<open>Buffer.from(undefined)\<close>, or any other value.\<close>

datatype rejection =
    JsError string
  | SyntaxError
  | TypeError
  | Value jsval

text \<open>ToBoolean, as used by \<open>data || {}\<close>.\<close>

fun truthy :: "jsval \<Rightarrow> bool" where
  "truthy JUndefined = False"
| "truthy JNull = False"
| "truthy (JBool b) = b"
| "truthy (JNum n) = (n \<noteq> 0)"
| "truthy JNaN = False"
| "truthy (JStr s) = (s \<noteq> [])"
| "truthy (JArr vs) = True"
| "truthy (JObj fs) = True"

text \<open>Reading a property \<open>v.k\<close>. It throws a \<open>TypeError\<close> on \<open>undefined\<close> and \<open>null\<close>. The
  keys read by the program (\<open>status\<close>, \<open>data\<close>, \<open>errorMessage\<close>, \<open>name\<close>, \<open>customerId\<close>)
  are on no prototype, so on a primitive or an array the result is \<open>undefined\<close>.\<close>

fun get_prop :: "jsval \<Rightarrow> string \<Rightarrow> rejection + jsval" where
  "get_prop JUndefined k = Inl TypeError"
| "get_prop JNull k = Inl TypeError"
| "get_prop (JObj fs) k = Inr (case map_of fs k of None \<Rightarrow> JUndefined | Some v \<Rightarrow> v)"
| "get_prop v k = Inr JUndefined"

text \<open>\<open>delete v.k\<close> in strict mode, for a key that is on no prototype.\<close>

fun delete_prop :: "jsval \<Rightarrow> string \<Rightarrow> rejection + jsval" where
  "delete_prop JUndefined k = Inl TypeError"
| "delete_prop JNull k = Inl TypeError"
| "delete_prop (JObj fs) k = Inr (JObj (filter (\<lambda>(k', v). k' \<noteq> k) fs))"
| "delete_prop v k = Inr v"

subsection \<open>\<open>JSON.stringify\<close>\<close>

fun digits :: "nat \<Rightarrow> string" where
  "digits n =
     (if n < 10 then [''0123456789'' ! n]
      else digits (n div 10) @ [''0123456789'' ! (n mod 10)])"

definition NumberToString :: "54 word \<Rightarrow> string" where
  "NumberToString n =
     (if sint n < 0 then CHR ''-'' # digits (nat (- sint n)) else digits (nat (sint n)))"

definition hex4 :: "nat \<Rightarrow> string" where
  "hex4 n =
     [CHR ''0'', CHR ''0'', ''0123456789abcdef'' ! (n div 16), ''0123456789abcdef'' ! (n mod 16)]"

definition QuoteJSONChar :: "char \<Rightarrow> string" where
  "QuoteJSONChar c =
     (let n = (of_char c :: nat) in
      if n = 0x22 then [CHR 0x5C, CHR 0x22]
      else if n = 0x5C then [CHR 0x5C, CHR 0x5C]
      else if n = 0x08 then [CHR 0x5C, CHR ''b'']
      else if n = 0x09 then [CHR 0x5C, CHR ''t'']
      else if n = 0x0A then [CHR 0x5C, CHR ''n'']
      else if n = 0x0C then [CHR 0x5C, CHR ''f'']
      else if n = 0x0D then [CHR 0x5C, CHR ''r'']
      else if n < 0x20 then [CHR 0x5C, CHR ''u''] @ hex4 n
      else [c])"

definition QuoteJSONString :: "string \<Rightarrow> string" where
  "QuoteJSONString s = [CHR 0x22] @ concat (map QuoteJSONChar s) @ [CHR 0x22]"

fun join :: "string \<Rightarrow> string list \<Rightarrow> string" where
  "join sep [] = []"
| "join sep [x] = x"
| "join sep (x # y # ys) = x @ sep @ join sep (y # ys)"

text \<open>\<open>JSON.stringify(v)\<close>; \<open>None\<close> is the result \<open>undefined\<close>. An \<open>undefined\<close> array element
  is written \<open>null\<close>, an \<open>undefined\<close> property is left out.\<close>

fun JSON_stringify :: "jsval \<Rightarrow> string option" where
  "JSON_stringify JUndefined = None"
| "JSON_stringify JNull = Some ''null''"
| "JSON_stringify (JBool b) = Some (if b then ''true'' else ''false'')"
| "JSON_stringify (JNum n) = Some (NumberToString n)"
| "JSON_stringify JNaN = Some ''null''"
| "JSON_stringify (JStr s) = Some (QuoteJSONString s)"
| "JSON_stringify (JArr vs) =
     Some (''['' @ join '',''
       (map (\<lambda>v. case JSON_stringify v of None \<Rightarrow> ''null'' | Some t \<Rightarrow> t) vs) @ '']'')"
| "JSON_stringify (JObj fs) =
     Some (''{'' @ join '',''
       (concat (map (\<lambda>(k, v). case JSON_stringify v of None \<Rightarrow> []
                               | Some t \<Rightarrow> [QuoteJSONString k @ '':'' @ t]) fs)) @ ''}'')"

text \<open>\<open>JSON.parse\<close> is a parameter of the model: a function from the bytes of a message
  body to the decoded value, \<open>None\<close> where \<open>JSON.parse\<close> throws its \<open>SyntaxError\<close>.\<close>

type_synonym parser = "string \<Rightarrow> jsval option"

section \<open>The channel: messages and the calls made on it\<close>

record props =
  correlationId :: "string option"
  replyTo :: "string option"

record message =
  content :: string
  properties :: props
  deliveryTag :: nat

text \<open>The well-known consumers of \<open>initConsumer\<close>, in the order of the source, and the
  callbacks a \<open>consume\<close> call can register: one of these, or the reply callback of an RPC
  call (a closure over its correlation id).\<close>

datatype listener =
    RpcInbound
  | CallPublish
  | WidgetNotification
  | IntegrationsNotification
  | SetDoNotDisturb
  | SparkNotification

datatype callback = Listener listener | RpcReply string

text \<open>The argument of \<open>debugBase\<close>: a string, or \<open>e.message\<close> of a caught value \<open>e\<close>.\<close>

datatype logged = Text string | MessageOf rejection


text \<open>Every effect of the module is a call on a collaborator; the model records the calls in
  order. \<open>AssertQueue name exclusive\<close>, \<open>Consume queue callback noAck\<close>,
  \<open>SendToQueue queue body properties\<close> (the queue is \<open>msg.properties.replyTo\<close> in one
  place, which may be \<open>undefined\<close>: \<open>None\<close>), \<open>Publish name data\<close> for
  \<open>graphqlPubsub.publish\<close>.\<close>

datatype event =
    Connect string
  | CreateChannel
  | AssertQueue string bool
  | Consume string callback bool
  | SendToQueue "string option" string props
  | Ack message
  | DeleteQueue string
  | DebugBase logged
  | Publish jsval jsval

text \<open>The handler \<open>e => debugBase(e.message)\<close> of a \<open>catch\<close>: reading \<open>e.message\<close>
  throws when \<open>e\<close> is \<open>undefined\<close> or \<open>null\<close>, and then nothing is logged (the
  \<open>TypeError\<close> is handled nowhere). The result is the \<open>debugBase\<close> call made, if any.\<close>

fun catch_log :: "rejection \<Rightarrow> event list" where
  "catch_log (Value JUndefined) = []"
| "catch_log (Value JNull) = []"
| "catch_log e = [DebugBase (MessageOf e)]"

text \<open>The broker's answers. A channel answers \<open>assertQueue(name)\<close> with the queue's name
  (chosen by the broker when the requested name is empty) or rejects. \<open>amqplib.connect\<close>
  and \<open>createChannel\<close> succeed or reject.\<close>

type_synonym channel = "string \<Rightarrow> rejection + string"

record amqp =
  connect :: "string \<Rightarrow> rejection option"
  createChannel :: "rejection + channel"

text \<open>The destructuring default \<open>RABBITMQ_HOST = 'amqp://localhost'\<close>.\<close>

definition RABBITMQ_HOST :: "string option \<Rightarrow> string" where
  "RABBITMQ_HOST env = (case env of None \<Rightarrow> ''amqp://localhost'' | Some h \<Rightarrow> h)"

section \<open>Client side\<close>

datatype promise = Pending | Resolved jsval | Rejected rejection

text \<open>\<open>resolve\<close> and \<open>reject\<close> act on a pending promise only.\<close>

definition settle :: "promise \<Rightarrow> promise \<Rightarrow> promise" where
  "settle outcome p = (if p = Pending then outcome else p)"

text \<open>\<open>sendRPCMessage\<close> up to the point where it waits: \<open>cid\<close> is the value of \<open>uuid()\<close>,
  \<open>channel\<close> the module's global (\<open>None\<close> while it is unassigned). The result is the calls
  made and the state of the promise. A rejection of \<open>assertQueue\<close> and a throw inside its
  \<open>then\<close> callback are not handled by the source: the promise stays pending.\<close>

definition sendRPCMessage ::
  "channel option \<Rightarrow> string \<Rightarrow> jsval \<Rightarrow> event list \<times> promise" where
  "sendRPCMessage channel cid msg =
     (case channel of
        None \<Rightarrow> ([], Rejected TypeError)
      | Some ch \<Rightarrow>
          (case ch [] of
             Inl e \<Rightarrow> ([AssertQueue [] True], Pending)
           | Inr q \<Rightarrow>
               (case JSON_stringify msg of
                  None \<Rightarrow> ([AssertQueue [] True, Consume q (RpcReply cid) True], Pending)
                | Some body \<Rightarrow>
                    ([AssertQueue [] True,
                      Consume q (RpcReply cid) True,
                      SendToQueue (Some ''rpc_queue:erxes-api'') body
                        \<lparr>correlationId = Some cid, replyTo = Some q\<rparr>],
                     Pending))))"

text \<open>The callback given to \<open>consume\<close> by \<open>sendRPCMessage\<close>, a closure over \<open>correlationId\<close>,
  the reply queue \<open>q\<close> and the promise. It is not an async function: the second component of
  the result is what it throws, if anything.\<close>

definition rpc_reply ::
  "parser \<Rightarrow> string \<Rightarrow> string \<Rightarrow> message option \<Rightarrow> promise
     \<Rightarrow> event list \<times> rejection option \<times> promise" where
  "rpc_reply parse cid q msg p =
     (case msg of
        None \<Rightarrow> ([], None, settle (Rejected (JsError ''consumer cancelled by rabbitmq'')) p)
      | Some m \<Rightarrow>
          if correlationId (properties m) = Some cid then
            (case parse (content m) of
               None \<Rightarrow> ([], Some SyntaxError, p)
             | Some res \<Rightarrow>
                 (case get_prop res ''status'' of
                    Inl e \<Rightarrow> ([], Some e, p)
                  | Inr status \<Rightarrow>
                      if status = JStr ''success'' then
                        (case get_prop res ''data'' of
                           Inl e \<Rightarrow> ([], Some e, p)
                         | Inr d \<Rightarrow> ([DeleteQueue q], None, settle (Resolved d) p))
                      else
                        (case get_prop res ''errorMessage'' of
                           Inl e \<Rightarrow> ([], Some e, p)
                         | Inr em \<Rightarrow> ([DeleteQueue q], None, settle (Rejected (Value em)) p))))
          else ([], None, p))"

text \<open>\<open>sendMessage\<close>: the calls made and how its promise settles.\<close>

definition sendMessage ::
  "channel option \<Rightarrow> string \<Rightarrow> jsval \<Rightarrow> event list \<times> (rejection + unit)" where
  "sendMessage channel queueName data =
     (case channel of
        None \<Rightarrow> ([], Inl TypeError)
      | Some ch \<Rightarrow>
          (case ch queueName of
             Inl e \<Rightarrow> ([AssertQueue queueName False], Inl e)
           | Inr q \<Rightarrow>
               (case JSON_stringify (if truthy data then data else JObj []) of
                  None \<Rightarrow> ([AssertQueue queueName False], Inl TypeError)
                | Some body \<Rightarrow>
                    ([AssertQueue queueName False,
                      SendToQueue (Some queueName) body
                        \<lparr>correlationId = None, replyTo = None\<rparr>],
                     Inr ()))))"

section \<open>Server side: the consumers of \<open>initConsumer\<close>\<close>

text \<open>
  The handlers are collaborators outside the module (\<open>receiveWidgetNotification\<close> is defined
  in it, from database, cache and pubsub collaborators only). Each is an async function: given
  its argument and the state of the outside world it fulfils with a value or rejects, and
  leaves a new state of the world. The model takes them as parameters.
\<close>

type_synonym 'w handler = "jsval \<Rightarrow> 'w \<Rightarrow> (rejection + jsval) \<times> 'w"

record 'w handlers =
  receiveRpcMessage :: "'w handler"
  receiveWidgetNotification :: "'w handler"
  receiveIntegrationsNotification :: "'w handler"
  Customers_updateOne :: "jsval \<Rightarrow> 'w handler"
  RobotEntries_createEntry :: "'w handler"

text \<open>Each consumer callback is an async function of the delivered message (\<open>None\<close> is the
  \<open>null\<close> of a cancelled consumer). The result is the calls made, how the callback's promise
  settles, and the new state of the world.\<close>

type_synonym 'w outcome = "event list \<times> (rejection + unit) \<times> 'w"

definition on_rpc :: "parser \<Rightarrow> 'w handlers \<Rightarrow> message option \<Rightarrow> 'w \<Rightarrow> 'w outcome" where
  "on_rpc parse H msg w =
     (case msg of
        None \<Rightarrow> ([], Inr (), w)
      | Some m \<Rightarrow>
          (case parse (content m) of
             None \<Rightarrow>
               ([DebugBase (Text (''Received rpc queue message '' @ content m))],
                Inl SyntaxError, w)
           | Some p \<Rightarrow>
               (case receiveRpcMessage H p w of
                  (Inl e, w') \<Rightarrow>
                    ([DebugBase (Text (''Received rpc queue message '' @ content m))],
                     Inl e, w')
                | (Inr response, w') \<Rightarrow>
                    (case JSON_stringify response of
                       None \<Rightarrow>
                         ([DebugBase (Text (''Received rpc queue message '' @ content m))],
                          Inl TypeError, w')
                     | Some body \<Rightarrow>
                         ([DebugBase (Text (''Received rpc queue message '' @ content m)),
                           SendToQueue (replyTo (properties m)) body
                             \<lparr>correlationId = correlationId (properties m), replyTo = None\<rparr>,
                           Ack m],
                          Inr (), w')))))"

text \<open>\<open>graphqlPubsub.publish\<close> is called and not awaited: the model records the call.\<close>

definition on_callPublish :: "parser \<Rightarrow> message option \<Rightarrow> 'w \<Rightarrow> 'w outcome" where
  "on_callPublish parse msg w =
     (case msg of
        None \<Rightarrow> ([], Inr (), w)
      | Some m \<Rightarrow>
          (case parse (content m) of
             None \<Rightarrow> ([], Inl SyntaxError, w)
           | Some params \<Rightarrow>
               (case get_prop params ''name'' of
                  Inl e \<Rightarrow> ([], Inl e, w)
                | Inr name \<Rightarrow>
                    (case get_prop params ''data'' of
                       Inl e \<Rightarrow> ([], Inl e, w)
                     | Inr d \<Rightarrow> ([Publish name d, Ack m], Inr (), w)))))"

text \<open>The \<open>widgetNotification\<close> and \<open>integrationsNotification\<close> consumers have the same
  body, around different handlers.\<close>

definition on_notification ::
  "parser \<Rightarrow> 'w handler \<Rightarrow> message option \<Rightarrow> 'w \<Rightarrow> 'w outcome" where
  "on_notification parse h msg w =
     (case msg of
        None \<Rightarrow> ([], Inr (), w)
      | Some m \<Rightarrow>
          (case parse (content m) of
             None \<Rightarrow> ([], Inl SyntaxError, w)
           | Some p \<Rightarrow>
               (case h p w of
                  (Inl e, w') \<Rightarrow> ([], Inl e, w')
                | (Inr r, w') \<Rightarrow> ([Ack m], Inr (), w'))))"

definition on_setDoNotDisturb ::
  "parser \<Rightarrow> 'w handlers \<Rightarrow> message option \<Rightarrow> 'w \<Rightarrow> 'w outcome" where
  "on_setDoNotDisturb parse H msg w =
     (case msg of
        None \<Rightarrow> ([], Inr (), w)
      | Some m \<Rightarrow>
          (case parse (content m) of
             None \<Rightarrow> ([], Inl SyntaxError, w)
           | Some d \<Rightarrow>
               (case get_prop d ''customerId'' of
                  Inl e \<Rightarrow> ([], Inl e, w)
                | Inr customerId \<Rightarrow>
                    (case Customers_updateOne H
                            (JObj [(''_id'', customerId)])
                            (JObj [(''$set'', JObj [(''doNotDisturb'', JStr ''Yes'')])]) w of
                       (Inl e, w') \<Rightarrow> ([], Inl e, w')
                     | (Inr r, w') \<Rightarrow> ([Ack m], Inr (), w')))))"

text \<open>The \<open>sparkNotification\<close> consumer does not await \<open>createEntry\<close>: it acknowledges first,
  and the \<open>then\<close>/\<open>catch\<close> callbacks log when the entry's promise settles. The callback's
  own promise is fulfilled by then, whatever the \<open>catch\<close> handler does.\<close>

definition on_spark :: "parser \<Rightarrow> 'w handlers \<Rightarrow> message option \<Rightarrow> 'w \<Rightarrow> 'w outcome" where
  "on_spark parse H msg w =
     (case msg of
        None \<Rightarrow> ([], Inr (), w)
      | Some m \<Rightarrow>
          (case parse (content m) of
             None \<Rightarrow>
               ([DebugBase (Text (''Received spark notification '' @ content m))],
                Inl SyntaxError, w)
           | Some d \<Rightarrow>
               (case delete_prop d ''subdomain'' of
                  Inl e \<Rightarrow>
                    ([DebugBase (Text (''Received spark notification '' @ content m))],
                     Inl e, w)
                | Inr d' \<Rightarrow>
                    (case RobotEntries_createEntry H d' w of
                       (r, w') \<Rightarrow>
                         ([DebugBase (Text (''Received spark notification '' @ content m)),
                           Ack m]
                            @ (case r of Inl e \<Rightarrow> catch_log e
                               | Inr v \<Rightarrow> [DebugBase (Text ''success'')]),
                          Inr (), w')))))"

text \<open>The callback registered for each well-known consumer.\<close>

fun on_message ::
  "parser \<Rightarrow> 'w handlers \<Rightarrow> listener \<Rightarrow> message option \<Rightarrow> 'w \<Rightarrow> 'w outcome" where
  "on_message parse H RpcInbound = on_rpc parse H"
| "on_message parse H CallPublish = on_callPublish parse"
| "on_message parse H WidgetNotification = on_notification parse (receiveWidgetNotification H)"
| "on_message parse H IntegrationsNotification =
     on_notification parse (receiveIntegrationsNotification H)"
| "on_message parse H SetDoNotDisturb = on_setDoNotDisturb parse H"
| "on_message parse H SparkNotification = on_spark parse H"

subsection \<open>\<open>initConsumer\<close>\<close>

text \<open>One block of \<open>initConsumer\<close>: \<open>await channel.assertQueue(q)\<close>, then
  \<open>channel.consume(q, callback)\<close> (no options: manual acknowledgment), then the rest \<open>k\<close> of
  the \<open>try\<close> body. The second component is the value thrown to the \<open>catch\<close>, if any.\<close>

definition listen ::
  "channel \<Rightarrow> string \<Rightarrow> listener \<Rightarrow> event list \<times> rejection option
     \<Rightarrow> event list \<times> rejection option" where
  "listen ch q l k =
     (case ch q of
        Inl e \<Rightarrow> ([AssertQueue q False], Some e)
      | Inr n \<Rightarrow> (AssertQueue q False # Consume q (Listener l) False # fst k, snd k))"

definition try_body :: "channel \<Rightarrow> event list \<times> rejection option" where
  "try_body ch =
     listen ch ''rpc_queue:erxes-integrations'' RpcInbound
    (listen ch ''callPublish'' CallPublish
    (listen ch ''widgetNotification'' WidgetNotification
    (listen ch ''integrationsNotification'' IntegrationsNotification
    (listen ch ''engages-api:set-donot-disturb'' SetDoNotDisturb
    (listen ch ''sparkNotification'' SparkNotification ([], None))))))"

text \<open>\<open>initConsumer\<close>: the calls made, and the module's global \<open>channel\<close> afterwards. The
  \<open>catch\<close> block is \<open>debugBase(e.message)\<close>.\<close>

definition initConsumer :: "string option \<Rightarrow> amqp \<Rightarrow> event list \<times> channel option" where
  "initConsumer env broker =
     (case connect broker (RABBITMQ_HOST env) of
        Some e \<Rightarrow> (Connect (RABBITMQ_HOST env) # catch_log e, None)
      | None \<Rightarrow>
          (case createChannel broker of
             Inl e \<Rightarrow>
               (Connect (RABBITMQ_HOST env) # CreateChannel # catch_log e, None)
           | Inr ch \<Rightarrow>
               (case try_body ch of
                  (evs, None) \<Rightarrow> (Connect (RABBITMQ_HOST env) # CreateChannel # evs, Some ch)
                | (evs, Some e) \<Rightarrow>
                    (Connect (RABBITMQ_HOST env) # CreateChannel # evs @ catch_log e,
                     Some ch))))"

text \<open>The registrations a sequence of calls has made: queue and well-known consumer of every
  \<open>consume\<close> call.\<close>

fun registrations :: "event list \<Rightarrow> (string \<times> listener) list" where
  "registrations [] = []"
| "registrations (Consume q (Listener l) noAck # evs) = (q, l) # registrations evs"
| "registrations (e # evs) = registrations evs"

subsection \<open>Runs of the consumers\<close>

text \<open>
  A run of the consumers is the sequence of callback invocations that the library has made:
  for each delivery, the callback registered for its queue is applied to the message, its
  calls are appended to the trace, and the promise it returns is dropped. The list is the
  deliveries that were made, whatever the reason a run ends where it does. Nothing in the
  module handles the rejection of a callback's promise, so whether the library makes another
  delivery after a rejected callback is the runtime's matter (a process that exits on an
  unhandled rejection makes none); a run says nothing about it. The interleaving of
  handlers suspended at an \<open>await\<close> is not modelled either.
\<close>

record 'w state =
  trace :: "event list"
  world :: 'w

definition deliver ::
  "parser \<Rightarrow> 'w handlers \<Rightarrow> (string \<times> listener) list \<Rightarrow> string \<times> message option
     \<Rightarrow> 'w state \<Rightarrow> 'w state" where
  "deliver parse H regs d s =
     (case map_of regs (fst d) of
        None \<Rightarrow> s
      | Some l \<Rightarrow>
          (case on_message parse H l (snd d) (world s) of
             (evs, r, w') \<Rightarrow> \<lparr>trace = trace s @ evs, world = w'\<rparr>))"

fun dispatch ::
  "parser \<Rightarrow> 'w handlers \<Rightarrow> (string \<times> listener) list \<Rightarrow> (string \<times> message option) list
     \<Rightarrow> 'w state \<Rightarrow> 'w state" where
  "dispatch parse H regs [] s = s"
| "dispatch parse H regs (d # ds) s = dispatch parse H regs ds (deliver parse H regs d s)"

section \<open>Sample inputs\<close>

text \<open>Concrete messages, handlers and broker answers on which the theorems below are
  evaluated. \<open>sample_parse\<close> is \<open>JSON.parse\<close> on the bodies that occur in them.\<close>

definition sample_parse :: parser where
  \<open>sample_parse =
     map_of
       [(''{"status":"success","data":"pong"}'',
           JObj [(''status'', JStr ''success''), (''data'', JStr ''pong'')]),
        (''{"status":"error","errorMessage":"boom"}'',
           JObj [(''status'', JStr ''error''), (''errorMessage'', JStr ''boom'')]),
        (''{"name":"fooEvent","data":{"x":1}}'',
           JObj [(''name'', JStr ''fooEvent''), (''data'', JObj [(''x'', JNum 1)])]),
        (''{"op":"ping"}'', JObj [(''op'', JStr ''ping'')]),
        (''{"action":"activityLog"}'', JObj [(''action'', JStr ''activityLog'')]),
        (''{"customerId":"c7","subdomain":"s"}'',
           JObj [(''customerId'', JStr ''c7''), (''subdomain'', JStr ''s'')])]\<close>

definition reply_success :: message where
  \<open>reply_success =
     \<lparr>content = ''{"status":"success","data":"pong"}'',
      properties = \<lparr>correlationId = Some ''c-1'', replyTo = None\<rparr>,
      deliveryTag = 1\<rparr>\<close>

definition reply_error :: message where
  \<open>reply_error =
     \<lparr>content = ''{"status":"error","errorMessage":"boom"}'',
      properties = \<lparr>correlationId = Some ''c-1'', replyTo = None\<rparr>,
      deliveryTag = 2\<rparr>\<close>

definition reply_stray :: message where
  \<open>reply_stray =
     \<lparr>content = ''{"status":"success","data":"pong"}'',
      properties = \<lparr>correlationId = Some ''c-2'', replyTo = None\<rparr>,
      deliveryTag = 3\<rparr>\<close>

definition ping_request :: message where
  \<open>ping_request =
     \<lparr>content = ''{"op":"ping"}'',
      properties = \<lparr>correlationId = Some ''c-1'', replyTo = Some ''amq.gen-1''\<rparr>,
      deliveryTag = 4\<rparr>\<close>

definition foo_event :: message where
  \<open>foo_event =
     \<lparr>content = ''{"name":"fooEvent","data":{"x":1}}'',
      properties = \<lparr>correlationId = None, replyTo = None\<rparr>,
      deliveryTag = 5\<rparr>\<close>

definition widget_note :: message where
  \<open>widget_note =
     \<lparr>content = ''{"action":"activityLog"}'',
      properties = \<lparr>correlationId = None, replyTo = None\<rparr>,
      deliveryTag = 6\<rparr>\<close>

definition customer_note :: message where
  \<open>customer_note =
     \<lparr>content = ''{"customerId":"c7","subdomain":"s"}'',
      properties = \<lparr>correlationId = None, replyTo = None\<rparr>,
      deliveryTag = 7\<rparr>\<close>

definition malformed :: message where
  \<open>malformed =
     \<lparr>content = ''{oops'',
      properties = \<lparr>correlationId = None, replyTo = None\<rparr>,
      deliveryTag = 8\<rparr>\<close>

text \<open>A channel that accepts every declaration and names anonymous queues
  \<open>amq.gen-1\<close>, behind a broker that accepts the connection.\<close>

definition sample_channel :: channel where
  "sample_channel name = Inr (if name = [] then ''amq.gen-1'' else name)"

definition sample_amqp :: amqp where
  "sample_amqp = \<lparr>connect = (\<lambda>host. None), createChannel = Inr sample_channel\<rparr>"

text \<open>Handlers over a world that counts their invocations: ones that fulfil, and ones
  that reject with \<open>new Error('boom')\<close>.\<close>

definition pong_handlers :: "nat handlers" where
  "pong_handlers =
     \<lparr>receiveRpcMessage =
        (\<lambda>p w. (Inr (JObj [(''status'', JStr ''success''), (''data'', JStr ''pong'')]), Suc w)),
      receiveWidgetNotification = (\<lambda>p w. (Inr JUndefined, Suc w)),
      receiveIntegrationsNotification = (\<lambda>p w. (Inr JUndefined, Suc w)),
      Customers_updateOne = (\<lambda>sel upd w. (Inr (JObj [(''ok'', JNum 1)]), Suc w)),
      RobotEntries_createEntry = (\<lambda>p w. (Inr p, Suc w))\<rparr>"

definition failing_handlers :: "nat handlers" where
  "failing_handlers =
     \<lparr>receiveRpcMessage = (\<lambda>p w. (Inl (JsError ''boom''), Suc w)),
      receiveWidgetNotification = (\<lambda>p w. (Inl (JsError ''boom''), Suc w)),
      receiveIntegrationsNotification = (\<lambda>p w. (Inl (JsError ''boom''), Suc w)),
      Customers_updateOne = (\<lambda>sel upd w. (Inl (JsError ''boom''), Suc w)),
      RobotEntries_createEntry = (\<lambda>p w. (Inl (JsError ''boom''), Suc w))\<rparr>"

definition well_known :: "(string \<times> listener) list" where
  "well_known =
     [(''rpc_queue:erxes-integrations'', RpcInbound),
      (''callPublish'', CallPublish),
      (''widgetNotification'', WidgetNotification),
      (''integrationsNotification'', IntegrationsNotification),
      (''engages-api:set-donot-disturb'', SetDoNotDisturb),
      (''sparkNotification'', SparkNotification)]"

section \<open>Properties of the client side\<close>

text \<open>
  Claim C1. When a reply whose \<open>correlationId\<close> equals the generated one arrives on the reply
  queue of an RPC call, a decoded reply with status \<open>"success"\<close> resolves the call with the
  reply's \<open>data\<close> field, a decoded reply with status \<open>"error"\<close> rejects it with the reply's
  \<open>errorMessage\<close>, and in both branches the reply queue is deleted. (\<open>resolve\<close> and \<open>reject\<close>
  act on a pending promise; a promise that is already settled is left as it is.)
\<close>

theorem matching_reply_settles_call:
  assumes "correlationId (properties m) = Some cid"
    and "parse (content m) = Some res"
  shows "(get_prop res ''status'' = Inr (JStr ''success'') \<and> get_prop res ''data'' = Inr d \<longrightarrow>
           rpc_reply parse cid q (Some m) p
             = ([DeleteQueue q], None, if p = Pending then Resolved d else p))
       \<and> (get_prop res ''status'' = Inr (JStr ''error'')
            \<and> get_prop res ''errorMessage'' = Inr em \<longrightarrow>
           rpc_reply parse cid q (Some m) p
             = ([DeleteQueue q], None, if p = Pending then Rejected (Value em) else p))"
  using assms by (simp add: rpc_reply_def settle_def)

theorem matching_reply_settles_call_witness:
  "rpc_reply sample_parse ''c-1'' ''amq.gen-1'' (Some reply_success) Pending
     = ([DeleteQueue ''amq.gen-1''], None, Resolved (JStr ''pong''))
   \<and> rpc_reply sample_parse ''c-1'' ''amq.gen-1'' (Some reply_error) Pending
     = ([DeleteQueue ''amq.gen-1''], None, Rejected (Value (JStr ''boom'')))"
  using
    matching_reply_settles_call [where m = reply_success and cid = "''c-1''"
      and parse = sample_parse and q = "''amq.gen-1''" and p = Pending
      and res = "JObj [(''status'', JStr ''success''), (''data'', JStr ''pong'')]"
      and d = "JStr ''pong''"]
    matching_reply_settles_call [where m = reply_error and cid = "''c-1''"
      and parse = sample_parse and q = "''amq.gen-1''" and p = Pending
      and res = "JObj [(''status'', JStr ''error''), (''errorMessage'', JStr ''boom'')]"
      and em = "JStr ''boom''"]
  by (simp add: sample_parse_def reply_success_def reply_error_def)

text \<open>
  Claim C3. A delivered reply whose \<open>correlationId\<close> is not the one generated for the call
  neither resolves nor rejects the call: the callback makes no call on the channel, throws
  nothing and leaves the promise as it was. Only a matching reply settles a pending call.
\<close>

theorem nonmatching_reply_ignored:
  "(correlationId (properties m) \<noteq> Some cid \<longrightarrow>
      rpc_reply parse cid q (Some m) p = ([], None, p))
   \<and> (snd (snd (rpc_reply parse cid q (Some m) Pending)) \<noteq> Pending \<longrightarrow>
        correlationId (properties m) = Some cid)"
  by (auto simp add: rpc_reply_def)

theorem nonmatching_reply_ignored_witness:
  "correlationId (properties reply_stray) \<noteq> Some ''c-1''
   \<and> rpc_reply sample_parse ''c-1'' ''amq.gen-1'' (Some reply_stray) Pending = ([], None, Pending)
   \<and> snd (snd (rpc_reply sample_parse ''c-1'' ''amq.gen-1'' (Some reply_success) Pending))
        \<noteq> Pending
   \<and> correlationId (properties reply_success) = Some ''c-1''"
proof -
  have stray: "correlationId (properties reply_stray) \<noteq> Some ''c-1''"
    by (simp add: reply_stray_def)
  have settled:
    "snd (snd (rpc_reply sample_parse ''c-1'' ''amq.gen-1'' (Some reply_success) Pending))
       \<noteq> Pending"
    by (simp add: rpc_reply_def settle_def sample_parse_def reply_success_def)
  show ?thesis
    using stray settled
      nonmatching_reply_ignored [of reply_stray "''c-1''" sample_parse "''amq.gen-1''" Pending]
      nonmatching_reply_ignored [of reply_success "''c-1''" sample_parse "''amq.gen-1''" Pending]
    by blast
qed

text \<open>
  Claim C10. When the broker cancels the reply-queue consumer (the callback is called with
  \<open>null\<close>), the call is rejected with an \<open>Error\<close> whose message is
  \<open>consumer cancelled by rabbitmq\<close>, and the reply queue is not deleted in that branch.
\<close>

theorem consumer_cancelled_rejects:
  "rpc_reply parse cid q None Pending
     = ([], None, Rejected (JsError ''consumer cancelled by rabbitmq''))
   \<and> DeleteQueue q \<notin> set (fst (rpc_reply parse cid q None p))"
  by (simp add: rpc_reply_def settle_def)

text \<open>
  Claim C5, as the code has it. A call of \<open>sendRPCMessage\<close> declares an exclusive queue
  under the empty name (the broker chooses the name), subscribes to the declared queue with
  \<open>noAck\<close>, and publishes the serialized request to the fixed queue \<open>rpc_queue:erxes-api\<close>
  with \<open>correlationId\<close> the generated id and \<open>replyTo\<close> the declared queue's name; the call
  is then pending. This is the course of a call on an open channel whose declaration the
  broker accepts and whose request \<open>JSON.stringify\<close> serializes. No call publishes to
  \<open>rpc_queue:erxes-integrations\<close>, the RPC queue that \<open>initConsumer\<close> consumes.
\<close>

theorem rpc_request_published:
  assumes "ch [] = Inr q" and "JSON_stringify msg = Some body"
  shows "sendRPCMessage (Some ch) cid msg =
           ([AssertQueue [] True,
             Consume q (RpcReply cid) True,
             SendToQueue (Some ''rpc_queue:erxes-api'') body
               \<lparr>correlationId = Some cid, replyTo = Some q\<rparr>],
            Pending)
       \<and> (\<forall>e \<in> set (fst (sendRPCMessage channel cid' msg')).
             \<forall>body' pr. e \<noteq> SendToQueue (Some ''rpc_queue:erxes-integrations'') body' pr)"
proof -
  have never: "\<forall>e \<in> set (fst (sendRPCMessage channel cid' msg')).
             \<forall>body' pr. e \<noteq> SendToQueue (Some ''rpc_queue:erxes-integrations'') body' pr"
    by (auto simp add: sendRPCMessage_def split: option.splits sum.splits)
  show ?thesis
    using assms never by (simp add: sendRPCMessage_def)
qed

theorem rpc_request_published_witness:
  \<open>sample_channel [] = Inr ''amq.gen-1''
   \<and> JSON_stringify (JObj [(''op'', JStr ''ping'')]) = Some ''{"op":"ping"}''
   \<and> sendRPCMessage (Some sample_channel) ''c-1'' (JObj [(''op'', JStr ''ping'')]) =
       ([AssertQueue [] True,
         Consume ''amq.gen-1'' (RpcReply ''c-1'') True,
         SendToQueue (Some ''rpc_queue:erxes-api'') ''{"op":"ping"}''
           \<lparr>correlationId = Some ''c-1'', replyTo = Some ''amq.gen-1''\<rparr>],
        Pending)\<close>
proof -
  have ch: "sample_channel [] = Inr ''amq.gen-1''"
    by (simp add: sample_channel_def)
  have body: \<open>JSON_stringify (JObj [(''op'', JStr ''ping'')]) = Some ''{"op":"ping"}''\<close>
    by (simp add: QuoteJSONString_def QuoteJSONChar_def)
  show ?thesis
    using ch body
      rpc_request_published [where ch = sample_channel and q = "''amq.gen-1''"
        and msg = "JObj [(''op'', JStr ''ping'')]" and cid = "''c-1''"]
    by simp
qed

text \<open>The claim C5 as the specification states it does not hold: the RPC queue that
  \<open>initConsumer\<close> consumes is \<open>rpc_queue:erxes-integrations\<close>, and the request of
  \<open>sendRPCMessage\<close> goes to \<open>rpc_queue:erxes-api\<close>, a queue on which this module registers
  no consumer.\<close>

theorem rpc_request_not_to_inbound_queue_counterexample:
  \<open>registrations (fst (initConsumer None sample_amqp)) ! 0
       = (''rpc_queue:erxes-integrations'', RpcInbound)
   \<and> map_of (registrations (fst (initConsumer None sample_amqp))) ''rpc_queue:erxes-api'' = None
   \<and> fst (sendRPCMessage (Some sample_channel) ''c-1'' (JObj [(''op'', JStr ''ping'')])) =
       [AssertQueue [] True,
        Consume ''amq.gen-1'' (RpcReply ''c-1'') True,
        SendToQueue (Some ''rpc_queue:erxes-api'') ''{"op":"ping"}''
          \<lparr>correlationId = Some ''c-1'', replyTo = Some ''amq.gen-1''\<rparr>]
   \<and> SendToQueue (Some ''rpc_queue:erxes-integrations'') ''{"op":"ping"}''
          \<lparr>correlationId = Some ''c-1'', replyTo = Some ''amq.gen-1''\<rparr>
        \<notin> set (fst (sendRPCMessage (Some sample_channel) ''c-1''
                      (JObj [(''op'', JStr ''ping'')])))\<close>
  by (simp add: initConsumer_def try_body_def listen_def sample_amqp_def sample_channel_def
      sendRPCMessage_def QuoteJSONString_def QuoteJSONChar_def)

text \<open>
  Claim C9. When the \<open>data\<close> argument of \<open>sendMessage\<close> is omitted, \<open>undefined\<close> or
  otherwise falsy, the body sent to the queue is the serialization of the empty object, the
  bytes \<open>{}\<close>: on a channel that accepts the declaration the queue is declared and then sent
  exactly that body, and no call of \<open>sendMessage\<close> with falsy data sends any other body, in
  particular not \<open>null\<close> or \<open>undefined\<close>.
\<close>

theorem falsy_data_sent_as_empty_object:
  assumes "\<not> truthy data"
  shows "(ch queueName = Inr q \<longrightarrow>
            sendMessage (Some ch) queueName data =
              ([AssertQueue queueName False,
                SendToQueue (Some queueName) ''{}'' \<lparr>correlationId = None, replyTo = None\<rparr>],
               Inr ()))
       \<and> (\<forall>e \<in> set (fst (sendMessage channel queueName data)).
             \<forall>dest body pr. e = SendToQueue dest body pr \<longrightarrow>
               body = ''{}'' \<and> body \<noteq> ''null'' \<and> body \<noteq> ''undefined'')"
  using assms by (auto simp add: sendMessage_def split: option.splits sum.splits)

theorem falsy_data_sent_as_empty_object_witness:
  "\<not> truthy JUndefined
   \<and> sample_channel ''callPublish'' = Inr ''callPublish''
   \<and> sendMessage (Some sample_channel) ''callPublish'' JUndefined =
       ([AssertQueue ''callPublish'' False,
         SendToQueue (Some ''callPublish'') ''{}'' \<lparr>correlationId = None, replyTo = None\<rparr>],
        Inr ())
   \<and> \<not> truthy (JNum 0)
   \<and> sendMessage (Some sample_channel) ''callPublish'' (JNum 0) =
       ([AssertQueue ''callPublish'' False,
         SendToQueue (Some ''callPublish'') ''{}'' \<lparr>correlationId = None, replyTo = None\<rparr>],
        Inr ())"
  using
    falsy_data_sent_as_empty_object [of JUndefined sample_channel "''callPublish''"
      "''callPublish''"]
    falsy_data_sent_as_empty_object [of "JNum 0" sample_channel "''callPublish''"
      "''callPublish''"]
  by (simp add: sample_channel_def)

section \<open>Properties of the consumers\<close>

text \<open>
  Claim C4. For a message delivered on the RPC queue of \<open>initConsumer\<close>, the consumer
  serializes the value with which the handler \<open>receiveRpcMessage\<close> fulfils, publishes it to
  the queue named by the message's \<open>replyTo\<close> with the message's \<open>correlationId\<close>, and
  acknowledges the message after that publish. (The handler's return value exists when the
  body decodes and the handler fulfils; it is published when \<open>JSON.stringify\<close> serializes it.)
\<close>

theorem rpc_inbound_replies_then_acks:
  assumes "parse (content m) = Some p"
    and "receiveRpcMessage H p w = (Inr response, w')"
    and "JSON_stringify response = Some body"
  shows "on_message parse H RpcInbound (Some m) w =
           ([DebugBase (Text (''Received rpc queue message '' @ content m)),
             SendToQueue (replyTo (properties m)) body
               \<lparr>correlationId = correlationId (properties m), replyTo = None\<rparr>,
             Ack m],
            Inr (), w')"
  using assms by (simp add: on_rpc_def)

theorem rpc_inbound_replies_then_acks_witness:
  \<open>on_message sample_parse pong_handlers RpcInbound (Some ping_request) 0 =
     ([DebugBase (Text ''Received rpc queue message {"op":"ping"}''),
       SendToQueue (Some ''amq.gen-1'') ''{"status":"success","data":"pong"}''
         \<lparr>correlationId = Some ''c-1'', replyTo = None\<rparr>,
       Ack ping_request],
      Inr (), 1)\<close>
proof -
  have p: "sample_parse (content ping_request) = Some (JObj [(''op'', JStr ''ping'')])"
    by (simp add: sample_parse_def ping_request_def)
  have h: "receiveRpcMessage pong_handlers (JObj [(''op'', JStr ''ping'')]) 0 =
             (Inr (JObj [(''status'', JStr ''success''), (''data'', JStr ''pong'')]), 1)"
    by (simp add: pong_handlers_def)
  have b: \<open>JSON_stringify (JObj [(''status'', JStr ''success''), (''data'', JStr ''pong'')])
             = Some ''{"status":"success","data":"pong"}''\<close>
    by (simp add: QuoteJSONString_def QuoteJSONChar_def)
  show ?thesis
    using p h b
      rpc_inbound_replies_then_acks [where parse = sample_parse and m = ping_request
        and H = pong_handlers and w = "0::nat"]
    by (simp add: ping_request_def)
qed

text \<open>
  Claim C7. For a message \<open>{name: N, data: D}\<close> delivered on the \<open>callPublish\<close> queue, the
  consumer calls \<open>graphqlPubsub.publish(N, D)\<close> exactly once, with the decoded name and data
  as they are, and then acknowledges the message.
\<close>

theorem callPublish_forwards_then_acks:
  assumes "parse (content m) = Some params"
    and "get_prop params ''name'' = Inr N"
    and "get_prop params ''data'' = Inr D"
  shows "on_message parse H CallPublish (Some m) w = ([Publish N D, Ack m], Inr (), w)"
  using assms by (simp add: on_callPublish_def)

theorem callPublish_forwards_then_acks_witness:
  "on_message sample_parse pong_handlers CallPublish (Some foo_event) 0 =
     ([Publish (JStr ''fooEvent'') (JObj [(''x'', JNum 1)]), Ack foo_event], Inr (), 0)"
proof -
  have p: "sample_parse (content foo_event) =
             Some (JObj [(''name'', JStr ''fooEvent''), (''data'', JObj [(''x'', JNum 1)])])"
    by (simp add: sample_parse_def foo_event_def)
  have n: "get_prop (JObj [(''name'', JStr ''fooEvent''), (''data'', JObj [(''x'', JNum 1)])])
             ''name'' = Inr (JStr ''fooEvent'')"
    by simp
  have d: "get_prop (JObj [(''name'', JStr ''fooEvent''), (''data'', JObj [(''x'', JNum 1)])])
             ''data'' = Inr (JObj [(''x'', JNum 1)])"
    by simp
  show ?thesis
    using p n d
      callPublish_forwards_then_acks [where parse = sample_parse and m = foo_event
        and H = pong_handlers and w = "0::nat"]
    by simp
qed

section \<open>Properties of \<open>initConsumer\<close> and of delivery\<close>

lemma registrations_append:
  "registrations (xs @ ys) = registrations xs @ registrations ys"
  by (induction xs rule: registrations.induct) simp_all

lemma registrations_catch_log: "registrations (catch_log e) = []"
  by (cases e rule: catch_log.cases) simp_all

lemma Ack_catch_log: "Ack m \<notin> set (catch_log e)"
  by (cases e rule: catch_log.cases) simp_all

lemmas consumer_defs =
  on_rpc_def on_callPublish_def on_notification_def on_setDoNotDisturb_def on_spark_def

lemma registrations_on_message:
  "registrations (fst (on_message parse H l msg w)) = []"
  by (cases l)
     (simp_all add: consumer_defs registrations_catch_log
        split: option.splits sum.splits prod.splits)

lemma ack_iff_fulfilled:
  "on_message parse H l (Some m) w = (evs, r, w') \<Longrightarrow> (Ack m \<in> set evs) = (r = Inr ())"
  by (cases l)
     (auto simp add: consumer_defs Ack_catch_log split: option.splits sum.splits prod.splits)

lemma registrations_deliver:
  "registrations (trace (deliver parse H regs d s)) = registrations (trace s)"
proof (cases "map_of regs (fst d)")
  case None
  then show ?thesis by (simp add: deliver_def)
next
  case (Some l)
  obtain evs r w' where o: "on_message parse H l (snd d) (world s) = (evs, r, w')"
    by (cases "on_message parse H l (snd d) (world s)") auto
  have "registrations evs = []"
    using registrations_on_message [of parse H l "snd d" "world s"] o by simp
  with Some o show ?thesis
    by (simp add: deliver_def registrations_append)
qed

lemma registrations_dispatch:
  "registrations (trace (dispatch parse H regs ds s)) = registrations (trace s)"
  by (induction ds arbitrary: s) (simp_all add: registrations_deliver)

lemma listen_accepted:
  "\<not> isl (ch q) \<Longrightarrow>
     listen ch q l k = (AssertQueue q False # Consume q (Listener l) False # fst k, snd k)"
  by (cases "ch q") (simp_all add: listen_def)

text \<open>
  Claim C6. At startup, on a broker that accepts the connection, the channel and the
  declarations, \<open>initConsumer\<close> declares exactly the queues
  \<open>rpc_queue:erxes-integrations\<close>, \<open>callPublish\<close>, \<open>widgetNotification\<close>,
  \<open>integrationsNotification\<close>, \<open>engages-api:set-donot-disturb\<close> and \<open>sparkNotification\<close>,
  each declared just before \<open>consume\<close> is called on it without \<open>noAck\<close>; it registers one
  callback for each of these queue names, and delivering messages afterwards changes no
  registration.
\<close>

theorem initConsumer_registers_well_known_queues:
  assumes "connect broker (RABBITMQ_HOST env) = None"
    and "createChannel broker = Inr ch"
    and "\<forall>q \<in> {''rpc_queue:erxes-integrations'', ''callPublish'', ''widgetNotification'',
                ''integrationsNotification'', ''engages-api:set-donot-disturb'',
                ''sparkNotification''}. \<not> isl (ch q)"
  shows "fst (initConsumer env broker) =
           [Connect (RABBITMQ_HOST env), CreateChannel,
            AssertQueue ''rpc_queue:erxes-integrations'' False,
            Consume ''rpc_queue:erxes-integrations'' (Listener RpcInbound) False,
            AssertQueue ''callPublish'' False,
            Consume ''callPublish'' (Listener CallPublish) False,
            AssertQueue ''widgetNotification'' False,
            Consume ''widgetNotification'' (Listener WidgetNotification) False,
            AssertQueue ''integrationsNotification'' False,
            Consume ''integrationsNotification'' (Listener IntegrationsNotification) False,
            AssertQueue ''engages-api:set-donot-disturb'' False,
            Consume ''engages-api:set-donot-disturb'' (Listener SetDoNotDisturb) False,
            AssertQueue ''sparkNotification'' False,
            Consume ''sparkNotification'' (Listener SparkNotification) False]
       \<and> registrations (fst (initConsumer env broker)) =
           [(''rpc_queue:erxes-integrations'', RpcInbound),
            (''callPublish'', CallPublish),
            (''widgetNotification'', WidgetNotification),
            (''integrationsNotification'', IntegrationsNotification),
            (''engages-api:set-donot-disturb'', SetDoNotDisturb),
            (''sparkNotification'', SparkNotification)]
       \<and> distinct (map fst (registrations (fst (initConsumer env broker))))
       \<and> registrations (trace (dispatch parse H regs ds
            \<lparr>trace = fst (initConsumer env broker), world = w\<rparr>))
          = registrations (fst (initConsumer env broker))"
proof -
  have body:
    "try_body ch =
       ([AssertQueue ''rpc_queue:erxes-integrations'' False,
         Consume ''rpc_queue:erxes-integrations'' (Listener RpcInbound) False,
         AssertQueue ''callPublish'' False,
         Consume ''callPublish'' (Listener CallPublish) False,
         AssertQueue ''widgetNotification'' False,
         Consume ''widgetNotification'' (Listener WidgetNotification) False,
         AssertQueue ''integrationsNotification'' False,
         Consume ''integrationsNotification'' (Listener IntegrationsNotification) False,
         AssertQueue ''engages-api:set-donot-disturb'' False,
         Consume ''engages-api:set-donot-disturb'' (Listener SetDoNotDisturb) False,
         AssertQueue ''sparkNotification'' False,
         Consume ''sparkNotification'' (Listener SparkNotification) False], None)"
    using assms(3) by (simp add: try_body_def listen_accepted)
  have init:
    "fst (initConsumer env broker) =
       Connect (RABBITMQ_HOST env) # CreateChannel # fst (try_body ch)"
    using assms(1,2) body by (simp add: initConsumer_def)
  show ?thesis
    unfolding init body using registrations_dispatch [of parse H regs ds] by simp
qed

theorem initConsumer_registers_well_known_queues_witness:
  "registrations (fst (initConsumer None sample_amqp)) = well_known
   \<and> fst (initConsumer None sample_amqp) ! 0 = Connect ''amqp://localhost''
   \<and> registrations (trace (dispatch sample_parse failing_handlers well_known
        [(''widgetNotification'', Some widget_note), (''callPublish'', Some foo_event)]
        \<lparr>trace = fst (initConsumer None sample_amqp), world = 0\<rparr>)) = well_known"
proof -
  have c: "connect sample_amqp (RABBITMQ_HOST None) = None"
    by (simp add: sample_amqp_def)
  have ch: "createChannel sample_amqp = Inr sample_channel"
    by (simp add: sample_amqp_def)
  have ok: "\<forall>q \<in> {''rpc_queue:erxes-integrations'', ''callPublish'', ''widgetNotification'',
                ''integrationsNotification'', ''engages-api:set-donot-disturb'',
                ''sparkNotification''}. \<not> isl (sample_channel q)"
    by (simp add: sample_channel_def)
  note init =
    initConsumer_registers_well_known_queues [OF c ch ok,
      of sample_parse failing_handlers well_known
        "[(''widgetNotification'', Some widget_note), (''callPublish'', Some foo_event)]" 0]
  have regs: "registrations (fst (initConsumer None sample_amqp)) = well_known"
    unfolding well_known_def using init by blast
  have "fst (initConsumer None sample_amqp) ! 0 = Connect (RABBITMQ_HOST None)"
    using init by simp
  then have first: "fst (initConsumer None sample_amqp) ! 0 = Connect ''amqp://localhost''"
    by (simp add: RABBITMQ_HOST_def)
  have "registrations (trace (dispatch sample_parse failing_handlers well_known
        [(''widgetNotification'', Some widget_note), (''callPublish'', Some foo_event)]
        \<lparr>trace = fst (initConsumer None sample_amqp), world = 0\<rparr>))
      = registrations (fst (initConsumer None sample_amqp))"
    using init by blast
  then have later: "registrations (trace (dispatch sample_parse failing_handlers well_known
        [(''widgetNotification'', Some widget_note), (''callPublish'', Some foo_event)]
        \<lparr>trace = fst (initConsumer None sample_amqp), world = 0\<rparr>)) = well_known"
    by (rule trans) (rule regs)
  show ?thesis
    using regs first later by blast
qed

text \<open>
  Claim C2, as the code has it. For every well-known queue consumer and every delivered
  message, the message is acknowledged exactly when the consumer's callback runs to its end.
  The consumers of the RPC, \<open>widgetNotification\<close>, \<open>integrationsNotification\<close> and
  \<open>engages-api:set-donot-disturb\<close> queues await their handler: when the handler fails, the
  callback's promise rejects with the handler's error and the message is not acknowledged.
  The \<open>sparkNotification\<close> consumer does not await \<open>createEntry\<close>: when it fails the message
  is acknowledged all the same, and the failure is logged unless the value it failed with is
  \<open>undefined\<close> or \<open>null\<close>. The \<open>callPublish\<close> consumer does not await
  \<open>graphqlPubsub.publish\<close>: it acknowledges the message right after the call. The module
  handles the rejection of a callback nowhere, and nothing is stated here about the messages
  delivered after it.
\<close>

theorem handler_failure_is_not_acknowledged:
  "(on_message parse H l (Some m) w = (evs, r, w'') \<longrightarrow> (Ack m \<in> set evs) = (r = Inr ()))
   \<and> (parse (content m) = Some p \<and> receiveRpcMessage H p w = (Inl e, w') \<longrightarrow>
      on_message parse H RpcInbound (Some m) w =
        ([DebugBase (Text (''Received rpc queue message '' @ content m))], Inl e, w'))
   \<and> (parse (content m) = Some p \<and> receiveWidgetNotification H p w = (Inl e, w') \<longrightarrow>
      on_message parse H WidgetNotification (Some m) w = ([], Inl e, w'))
   \<and> (parse (content m) = Some p \<and> receiveIntegrationsNotification H p w = (Inl e, w') \<longrightarrow>
      on_message parse H IntegrationsNotification (Some m) w = ([], Inl e, w'))
   \<and> (parse (content m) = Some p \<and> get_prop p ''customerId'' = Inr c
        \<and> Customers_updateOne H (JObj [(''_id'', c)])
             (JObj [(''$set'', JObj [(''doNotDisturb'', JStr ''Yes'')])]) w = (Inl e, w') \<longrightarrow>
      on_message parse H SetDoNotDisturb (Some m) w = ([], Inl e, w'))
   \<and> (parse (content m) = Some p \<and> delete_prop p ''subdomain'' = Inr p'
        \<and> RobotEntries_createEntry H p' w = (Inl e, w') \<longrightarrow>
      on_message parse H SparkNotification (Some m) w =
        ([DebugBase (Text (''Received spark notification '' @ content m)), Ack m]
           @ (if e = Value JUndefined \<or> e = Value JNull then []
              else [DebugBase (MessageOf e)]),
         Inr (), w'))
   \<and> (parse (content m) = Some p \<and> get_prop p ''name'' = Inr N
        \<and> get_prop p ''data'' = Inr D \<longrightarrow>
      on_message parse H CallPublish (Some m) w = ([Publish N D, Ack m], Inr (), w))"
proof -
  have ack: "on_message parse H l (Some m) w = (evs, r, w'') \<longrightarrow>
      (Ack m \<in> set evs) = (r = Inr ())"
    using ack_iff_fulfilled [of parse H l m w evs r w''] by blast
  have log: "catch_log e =
      (if e = Value JUndefined \<or> e = Value JNull then [] else [DebugBase (MessageOf e)])"
    by (cases e rule: catch_log.cases) simp_all
  show ?thesis
    using ack by (simp add: consumer_defs log)
qed

theorem handler_failure_is_not_acknowledged_witness:
  "on_message sample_parse failing_handlers RpcInbound (Some ping_request) 0 =
     ([DebugBase (Text (''Received rpc queue message '' @ content ping_request))],
      Inl (JsError ''boom''), 1)
   \<and> Ack ping_request \<notin> set [DebugBase (Text (''Received rpc queue message ''
        @ content ping_request))]
   \<and> on_message sample_parse failing_handlers WidgetNotification (Some widget_note) 0 =
       ([], Inl (JsError ''boom''), 1)
   \<and> on_message sample_parse failing_handlers IntegrationsNotification (Some widget_note) 0 =
       ([], Inl (JsError ''boom''), 1)
   \<and> on_message sample_parse failing_handlers SetDoNotDisturb (Some customer_note) 0 =
       ([], Inl (JsError ''boom''), 1)
   \<and> on_message sample_parse failing_handlers SparkNotification (Some customer_note) 0 =
       ([DebugBase (Text (''Received spark notification '' @ content customer_note)),
         Ack customer_note,
         DebugBase (MessageOf (JsError ''boom''))],
        Inr (), 1)
   \<and> on_message sample_parse failing_handlers CallPublish (Some foo_event) 0 =
       ([Publish (JStr ''fooEvent'') (JObj [(''x'', JNum 1)]), Ack foo_event], Inr (), 0)"
proof -
  have ping: "sample_parse (content ping_request) = Some (JObj [(''op'', JStr ''ping'')])"
    by (simp add: sample_parse_def ping_request_def)
  have wnote:
    "sample_parse (content widget_note) = Some (JObj [(''action'', JStr ''activityLog'')])"
    by (simp add: sample_parse_def widget_note_def)
  have cust: "sample_parse (content customer_note) =
      Some (JObj [(''customerId'', JStr ''c7''), (''subdomain'', JStr ''s'')])"
    by (simp add: sample_parse_def customer_note_def)
  have foo: "sample_parse (content foo_event) =
      Some (JObj [(''name'', JStr ''fooEvent''), (''data'', JObj [(''x'', JNum 1)])])"
    by (simp add: sample_parse_def foo_event_def)
  have h:
    "receiveRpcMessage failing_handlers = (\<lambda>p w. (Inl (JsError ''boom''), Suc w))"
    "receiveWidgetNotification failing_handlers = (\<lambda>p w. (Inl (JsError ''boom''), Suc w))"
    "receiveIntegrationsNotification failing_handlers = (\<lambda>p w. (Inl (JsError ''boom''), Suc w))"
    "Customers_updateOne failing_handlers = (\<lambda>sel upd w. (Inl (JsError ''boom''), Suc w))"
    "RobotEntries_createEntry failing_handlers = (\<lambda>p w. (Inl (JsError ''boom''), Suc w))"
    by (simp_all add: failing_handlers_def)
  note rpc =
    handler_failure_is_not_acknowledged [where parse = sample_parse
      and H = failing_handlers and m = ping_request and w = 0 and w' = 1
      and p = "JObj [(''op'', JStr ''ping'')]" and e = "JsError ''boom''"
      and l = RpcInbound and w'' = 1 and r = "Inl (JsError ''boom'')"
      and evs = "[DebugBase (Text (''Received rpc queue message '' @ content ping_request))]"]
  note widget =
    handler_failure_is_not_acknowledged [where parse = sample_parse
      and H = failing_handlers and m = widget_note and w = 0 and w' = 1
      and p = "JObj [(''action'', JStr ''activityLog'')]" and e = "JsError ''boom''"]
  note customer =
    handler_failure_is_not_acknowledged [where parse = sample_parse
      and H = failing_handlers and m = customer_note and w = 0 and w' = 1
      and p = "JObj [(''customerId'', JStr ''c7''), (''subdomain'', JStr ''s'')]"
      and c = "JStr ''c7''" and p' = "JObj [(''customerId'', JStr ''c7'')]"
      and e = "JsError ''boom''"]
  note publish =
    handler_failure_is_not_acknowledged [where parse = sample_parse
      and H = failing_handlers and m = foo_event and w = 0
      and p = "JObj [(''name'', JStr ''fooEvent''), (''data'', JObj [(''x'', JNum 1)])]"
      and N = "JStr ''fooEvent''" and D = "JObj [(''x'', JNum 1)]"]
  show ?thesis
    using ping wnote cust foo h rpc widget customer publish by simp
qed

text \<open>The claim C2 as the specification states it does not hold: the handler of a
  \<open>widgetNotification\<close> message fails and the message is not acknowledged.\<close>

theorem handler_failure_acknowledged_counterexample:
  "fst (receiveWidgetNotification failing_handlers (JObj [(''action'', JStr ''activityLog'')]) 0)
     = Inl (JsError ''boom'')
   \<and> sample_parse (content widget_note) = Some (JObj [(''action'', JStr ''activityLog'')])
   \<and> Ack widget_note \<notin> set (fst (on_message sample_parse failing_handlers WidgetNotification
        (Some widget_note) 0))"
  by (simp add: failing_handlers_def sample_parse_def widget_note_def on_notification_def)

text \<open>
  Claim C8, as the code has it. For every consumer registered by \<open>initConsumer\<close>, a message
  whose body is malformed JSON makes the callback's promise reject with the \<open>SyntaxError\<close>
  of \<open>JSON.parse\<close> before the handler is called: the world is as it was, the message is not
  acknowledged and the failure is not logged (the RPC and \<open>sparkNotification\<close> consumers
  have logged the raw body before decoding it). The module handles the rejection nowhere,
  and nothing is stated here about the messages delivered after it.
\<close>

theorem malformed_body_rejects_unacknowledged:
  assumes "parse (content m) = None"
  shows "on_message parse H l (Some m) w =
           ((if l = RpcInbound
             then [DebugBase (Text (''Received rpc queue message '' @ content m))]
             else if l = SparkNotification
             then [DebugBase (Text (''Received spark notification '' @ content m))]
             else []),
            Inl SyntaxError, w)
       \<and> Ack m \<notin> set (fst (on_message parse H l (Some m) w))"
  using assms by (cases l) (simp_all add: consumer_defs)

theorem malformed_body_rejects_unacknowledged_witness:
  "sample_parse (content malformed) = None
   \<and> on_message sample_parse pong_handlers CallPublish (Some malformed) 0
       = ([], Inl SyntaxError, 0)
   \<and> on_message sample_parse pong_handlers RpcInbound (Some malformed) 0
       = ([DebugBase (Text ''Received rpc queue message {oops'')], Inl SyntaxError, 0)"
proof -
  have bad: "sample_parse (content malformed) = None"
    by (simp add: sample_parse_def malformed_def)
  have raw: "content malformed = ''{oops''"
    by (simp add: malformed_def)
  show ?thesis
    using bad raw
      malformed_body_rejects_unacknowledged [where parse = sample_parse and m = malformed
        and H = pong_handlers and l = CallPublish and w = 0]
      malformed_body_rejects_unacknowledged [where parse = sample_parse and m = malformed
        and H = pong_handlers and l = RpcInbound and w = 0]
    by simp
qed

text \<open>The claim C8 as the specification states it does not hold: a malformed message on
  the \<open>callPublish\<close> queue is neither logged nor acknowledged.\<close>

theorem malformed_body_logged_and_dropped_counterexample:
  "sample_parse (content malformed) = None
   \<and> fst (on_message sample_parse pong_handlers CallPublish (Some malformed) 0) = []"
  by (simp add: sample_parse_def malformed_def on_callPublish_def)

end
